theory Spec2Isabelle
  imports Complex_Main
begin

section \<open>The model grid of \<open>synth_fit/make_model.py\<close>\<close>

text \<open>
  The class \<open>ModelGrid\<close> of \<open>src/synth_fit/make_model.py\<close> is embedded here.

  Conventions of the embedding.
  \<^item> A numpy array of floats is a \<open>real list\<close>; arithmetic is exact, so rounding,
    \<open>nan\<close> and \<open>inf\<close> are outside the model. A float division by zero (which
    numpy answers with \<open>nan\<close> or \<open>inf\<close> and a warning) is excluded by a hypothesis
    wherever a theorem depends on the quotient.
  \<^item> An astropy \<open>Quantity\<close> is its value: the spectrum is taken as already
    expressed in the units of the models.
  \<^item> The file is Python 2 (\<open>len(old_corners)/2\<close> is used as an index, and
    \<open>np.arange(n)/div_by\<close> as an integer quotient): \<open>/\<close> on integers is \<open>div\<close>.
  \<^item> Every \<open>raise\<close> of the interpreter is a value \<open>Inl e\<close> of the result type
    \<open>py_error + 'a\<close>; logging is dropped.
\<close>

subsection \<open>Errors and array primitives\<close>

datatype py_error =
  IndexError | KeyError | ValueError | NameError | UnboundLocalError | TypeError

text \<open>The value a posterior evaluation returns: \<open>-np.inf\<close> or a float.\<close>

datatype lnprob = NegInf | Finite real

text \<open>
  An elementwise binary operation of numpy on one-dimensional arrays: equal lengths, or
  one operand of length one that is broadcast; any other pair of shapes raises
  \<open>ValueError\<close>.
\<close>

definition np_binop ::
  "(real \<Rightarrow> real \<Rightarrow> real) \<Rightarrow> real list \<Rightarrow> real list \<Rightarrow> py_error + real list" where
  "np_binop f xs ys =
     (if length xs = length ys then Inr (map (\<lambda>(x, y). f x y) (zip xs ys))
      else if length xs = 1 then Inr (map (\<lambda>y. f (xs ! 0) y) ys)
      else if length ys = 1 then Inr (map (\<lambda>x. f x (ys ! 0)) xs)
      else Inl ValueError)"

text \<open>\<open>np.where(cond)[0]\<close>: the indices at which the condition holds, in order.\<close>

definition np_where :: "('a \<Rightarrow> bool) \<Rightarrow> 'a list \<Rightarrow> nat list" where
  "np_where P xs = filter (\<lambda>j. P (xs ! j)) [0..<length xs]"

text \<open>\<open>arr[loc] = v\<close> for the index set of a condition on a second array of the same
  length (here always \<open>self.wave\<close>).\<close>

definition assign_where :: "(real \<Rightarrow> bool) \<Rightarrow> real \<Rightarrow> real list \<Rightarrow> real list \<Rightarrow> real list" where
  "assign_where P v ws arr = map (\<lambda>(w, a). if P w then v else a) (zip ws arr)"

subsection \<open>\<open>calc_normalization\<close>\<close>

text \<open>
  The loop \<open>for i in range(len(n_values))\<close> of \<open>calc_normalization\<close>, over the list of
  the indices still to visit. \<open>wavelength_bins[i+1]\<close> raises \<open>IndexError\<close> when there
  is no such edge.
\<close>

fun bins_loop ::
  "real list \<Rightarrow> real list \<Rightarrow> real list \<Rightarrow> nat list \<Rightarrow> real list \<Rightarrow> py_error + real list" where
  "bins_loop ws n_values bins [] normalization = Inr normalization"
| "bins_loop ws n_values bins (i # rest) normalization =
     (if Suc i < length bins
      then bins_loop ws n_values bins rest
             (assign_where (\<lambda>w. bins ! i < w \<and> w \<le> bins ! Suc i) (n_values ! i) ws normalization)
      else Inl IndexError)"

text \<open>
  \<open>calc_normalization(n_values, wavelength_bins)\<close> on the wavelength axis \<open>ws\<close>
  (\<open>self.wave\<close>). After the loop the variable \<open>i\<close> keeps its last value,
  \<open>len(n_values) - 1\<close>, and both clamping assignments read \<open>n_values[i]\<close>; with no
  normalization value the variable was never bound. With no bin edge,
  \<open>normalization[:] = n_values\<close> broadcasts one value or copies an array of the right
  length.
\<close>

definition calc_normalization ::
  "real list \<Rightarrow> real list \<Rightarrow> real list \<Rightarrow> py_error + real list" where
  "calc_normalization ws n_values wavelength_bins =
     (if length wavelength_bins = 0 then
        (if length n_values = 1 then Inr (replicate (length ws) (n_values ! 0))
         else if length n_values = length ws then Inr n_values
         else Inl ValueError)
      else
        (case bins_loop ws n_values wavelength_bins [0..<length n_values]
                (replicate (length ws) 0) of
           Inl e \<Rightarrow> Inl e
         | Inr normalization \<Rightarrow>
             if n_values = [] then Inl UnboundLocalError
             else
               let i = length n_values - 1;
                   below = assign_where (\<lambda>w. w \<le> wavelength_bins ! 0) (n_values ! i) ws
                             normalization
               in Inr (assign_where (\<lambda>w. last wavelength_bins < w) (n_values ! i) ws below)))"

subsection \<open>\<open>normalize_model\<close>\<close>

text \<open>
  The two sums of \<open>normalize_model\<close>, for a data flux \<open>fl\<close>, an uncertainty \<open>un\<close> and
  a model flux \<open>mf\<close>: \<open>mult1 = sum(self.flux*model_flux/(self.unc**2))\<close> and
  \<open>mult = sum(model_flux*model_flux/(self.unc**2))\<close>.
\<close>

definition sum_ratio ::
  "real list \<Rightarrow> real list \<Rightarrow> real list \<Rightarrow> py_error + real" where
  "sum_ratio xs ys un =
     (case np_binop (*) xs ys of
        Inl e \<Rightarrow> Inl e
      | Inr num \<Rightarrow>
          (case np_binop (/) num (map (\<lambda>u. u ^ 2) un) of
             Inl e \<Rightarrow> Inl e
           | Inr q \<Rightarrow> Inr (sum_list q)))"

text \<open>\<open>normalize_model(model_flux, return_ck=True)\<close>: the scaled flux and \<open>ck\<close>.\<close>

definition normalize_model_ck ::
  "real list \<Rightarrow> real list \<Rightarrow> real list \<Rightarrow> py_error + (real list \<times> real)" where
  "normalize_model_ck fl un model_flux =
     (case sum_ratio fl model_flux un of
        Inl e \<Rightarrow> Inl e
      | Inr mult1 \<Rightarrow>
          (case sum_ratio model_flux model_flux un of
             Inl e \<Rightarrow> Inl e
           | Inr mult \<Rightarrow>
               let ck = mult1 / mult in Inr (map (\<lambda>m. m * ck) model_flux, ck)))"

text \<open>\<open>normalize_model(model_flux)\<close>, as the retrieval routines call it.\<close>

definition normalize_model ::
  "real list \<Rightarrow> real list \<Rightarrow> real list \<Rightarrow> py_error + real list" where
  "normalize_model fl un model_flux =
     (case normalize_model_ck fl un model_flux of
        Inl e \<Rightarrow> Inl e
      | Inr (scaled, ck) \<Rightarrow> Inr scaled)"

subsection \<open>The data\<close>

text \<open>
  The spectrum handed to the constructor (keys \<open>'wavelength'\<close>, \<open>'flux'\<close>, \<open>'unc'\<close>),
  and the dictionary of models: the shared wavelength axis, one flux array per model, and
  under every other key one coordinate value per model.
\<close>

record spectrum =
  s_wavelength :: "real list"
  s_flux :: "real list"
  s_unc :: "real list"

record model_dict =
  m_wavelength :: "real list"
  m_flux :: "real list list"
  m_cols :: "string \<Rightarrow> real list option"

text \<open>An entry of \<open>self.plims\<close>: the keys \<open>'vals'\<close>, \<open>'min'\<close> and \<open>'max'\<close>.\<close>

record plim =
  vals :: "real list"
  min_val :: real
  max_val :: real

text \<open>
  The attributes of a \<open>ModelGrid\<close>. \<open>self.ndim\<close> is \<open>len(self.params)\<close>, set once in
  the constructor; it is the derived \<open>ndim\<close> below. \<open>self.mod_keys\<close> and
  \<open>self.model_flux_units\<close> carry nothing the model reads. The constructor's
  \<open>resolution\<close> argument is stored in no attribute.
\<close>

record ModelGrid =
  model :: model_dict
  wavelength_bins :: "real list"
  params :: "string list"
  plims :: "string \<Rightarrow> plim option"
  smooth :: bool
  wave :: "real list"
  flux :: "real list"
  unc :: "real list"
  interp :: bool
  is_grid_complete :: bool
  snap :: bool

definition ndim :: "ModelGrid \<Rightarrow> nat" where
  "ndim g = length (params g)"

text \<open>
  What the module takes from outside \<open>make_model.py\<close>.
  \<^item> \<open>falt2\<close> is the smoothing routine of the module \<open>smooth\<close> (\<open>from smooth import *\<close>),
    \<open>np_interp\<close> is \<open>numpy.interp\<close>; both are parameters.
  \<^item> \<open>resolution_global\<close> is the module-level name \<open>resolution\<close>, which
    \<open>interp_models\<close> and \<open>retrieve_model\<close> read. \<open>make_model.py\<close> binds no such name, so
    it is bound only if the star import brings one in.
  \<^item> \<open>neg_int_power\<close> is what numpy does with \<open>2**e\<close> for a negative numpy integer \<open>e\<close>:
    releases from 1.12 on raise \<open>ValueError\<close>; older releases return a number, the
    float \<open>1/2**(-e)\<close> for scalars (an integer power truncated to 0 divides the row
    numbers to 0 all the same).
\<close>

datatype neg_power = RaisesValueError | GivesReciprocal

record pyenv =
  neg_int_power :: neg_power
  resolution_global :: "real option"
  falt2 :: "real list \<Rightarrow> real list \<Rightarrow> real \<Rightarrow> real list"
  np_interp :: "real list \<Rightarrow> real list \<Rightarrow> real list \<Rightarrow> real list"

text \<open>Results in order, stopping at the first exception.\<close>

fun collect :: "('e + 'a) list \<Rightarrow> 'e + 'a list" where
  "collect [] = Inr []"
| "collect (Inl e # rs) = Inl e"
| "collect (Inr x # rs) = (case collect rs of Inl e \<Rightarrow> Inl e | Inr xs \<Rightarrow> Inr (x # xs))"

text \<open>The builtins \<open>min\<close> and \<open>max\<close> on an array: \<open>ValueError\<close> on an empty one.\<close>

fun py_min :: "real list \<Rightarrow> py_error + real" where
  "py_min [] = Inl ValueError"
| "py_min (x # xs) = Inr (fold min xs x)"

fun py_max :: "real list \<Rightarrow> py_error + real" where
  "py_max [] = Inl ValueError"
| "py_max (x # xs) = Inr (fold max xs x)"

text \<open>\<open>np.unique\<close>: the sorted distinct values. \<open>np.intersect1d\<close>: the sorted distinct
  common values.\<close>

definition np_unique :: "real list \<Rightarrow> real list" where
  "np_unique xs = sort (remdups xs)"

definition intersect1d :: "nat list \<Rightarrow> nat list \<Rightarrow> nat list" where
  "intersect1d xs ys = sort (remdups (filter (\<lambda>x. x \<in> set ys) xs))"

text \<open>\<open>self.plims[self.params[i]]['vals']\<close> for a non-negative \<open>i\<close>.\<close>

definition plims_entry :: "ModelGrid \<Rightarrow> nat \<Rightarrow> py_error + plim" where
  "plims_entry g i =
     (if i < length (params g)
      then (case plims g (params g ! i) of None \<Rightarrow> Inl KeyError | Some pl \<Rightarrow> Inr pl)
      else Inl IndexError)"

definition plims_vals :: "ModelGrid \<Rightarrow> nat \<Rightarrow> py_error + real list" where
  "plims_vals g i = (case plims_entry g i of Inl e \<Rightarrow> Inl e | Inr pl \<Rightarrow> Inr (vals pl))"

subsection \<open>\<open>check_grid_coverage\<close>\<close>

text \<open>
  The table \<open>unique_combinations\<close>: row \<open>r\<close>, column \<open>i\<close> holds
  \<open>unique_params[i][(r / 2**(ndim-i-1)) % len(unique_params[i])]\<close>.
\<close>

definition unique_combinations :: "real list list \<Rightarrow> real list list" where
  "unique_combinations unique_params =
     (let nd = length unique_params;
          ncomb = prod_list (map length unique_params)
      in map (\<lambda>r. map (\<lambda>i. unique_params ! i
                               ! ((r div 2 ^ (nd - i - 1)) mod length (unique_params ! i)))
                     [0..<nd])
             [0..<ncomb])"

text \<open>
  The inner loop \<open>for j in range(self.ndim)\<close> for the row \<open>up\<close> with the row number \<open>i\<close>
  of \<open>enumerate\<close>: every pass reads \<open>self.plims[self.params[i]]\<close>, indexed by the row
  number, and intersects \<open>p_loc\<close> with the places where that column equals \<open>up[j]\<close>.
\<close>

fun match_row :: "ModelGrid \<Rightarrow> nat \<Rightarrow> real list \<Rightarrow> nat list \<Rightarrow> py_error + nat list" where
  "match_row g i [] p_loc = Inr p_loc"
| "match_row g i (u # up) p_loc =
     (case plims_vals g i of
        Inl e \<Rightarrow> Inl e
      | Inr vs \<Rightarrow> match_row g i up (intersect1d p_loc (np_where (\<lambda>v. v = u) vs)))"

text \<open>The loop over the rows, from row number \<open>i\<close> on; \<open>n\<close> is the number of rows.\<close>

fun coverage_loop :: "ModelGrid \<Rightarrow> nat \<Rightarrow> nat \<Rightarrow> real list list \<Rightarrow> py_error + bool" where
  "coverage_loop g n i [] = Inr True"
| "coverage_loop g n i (up # rest) =
     (case match_row g i up [0..<n] of
        Inl e \<Rightarrow> Inl e
      | Inr p_loc \<Rightarrow>
          if length p_loc = 0 then Inr False else coverage_loop g n (Suc i) rest)"

definition check_grid_coverage :: "ModelGrid \<Rightarrow> py_error + bool" where
  "check_grid_coverage g =
     (case collect (map (plims_vals g) [0..<ndim g]) of
        Inl e \<Rightarrow> Inl e
      | Inr vss \<Rightarrow>
          let combos = unique_combinations (map np_unique vss)
          in coverage_loop g (length combos) 0 combos)"

text \<open>
  The coverage as the specification words it, for \<open>n\<close> models and the coordinate
  columns of the fit parameters (one list per parameter, one entry per model): every
  combination of the distinct values of the columns is the coordinate tuple of some
  model.
\<close>

definition spec_grid_coverage :: "nat \<Rightarrow> real list list \<Rightarrow> bool" where
  "spec_grid_coverage n cols =
     list_all (\<lambda>combo. list_ex (\<lambda>j. list_all (\<lambda>i. cols ! i ! j = combo ! i) [0..<length cols])
                                 [0..<n])
              (product_lists (map remdups cols))"

subsection \<open>The constructor\<close>

text \<open>The loop that fills \<open>self.plims\<close>; a name that is no key of the models is only
  logged.\<close>

fun plims_loop ::
  "(string \<Rightarrow> real list option) \<Rightarrow> string list \<Rightarrow> (string \<Rightarrow> plim option)
     \<Rightarrow> py_error + (string \<Rightarrow> plim option)" where
  "plims_loop cols [] pl = Inr pl"
| "plims_loop cols (p # ps) pl =
     (case cols p of
        None \<Rightarrow> plims_loop cols ps pl
      | Some vs \<Rightarrow>
          (case py_min vs of
             Inl e \<Rightarrow> Inl e
           | Inr lo \<Rightarrow>
               (case py_max vs of
                  Inl e \<Rightarrow> Inl e
                | Inr hi \<Rightarrow>
                    plims_loop cols ps (pl(p \<mapsto> \<lparr>vals = vs, min_val = lo, max_val = hi\<rparr>)))))"

text \<open>
  \<open>ModelGrid.__init__(spectrum, model_dict, params, smooth, resolution, snap,
  wavelength_bins)\<close>. The names in \<open>params\<close> are keys of coordinate columns. The
  attributes \<open>is_grid_complete\<close> and \<open>snap\<close> do not exist before they are assigned;
  \<open>check_grid_coverage\<close> reads neither. After the \<open>if\<close>/\<open>else\<close> on the coverage, line
  182 assigns \<open>self.snap = snap\<close> once more.
\<close>

definition ModelGrid_init ::
  "spectrum \<Rightarrow> model_dict \<Rightarrow> string list \<Rightarrow> bool \<Rightarrow> real option \<Rightarrow> bool \<Rightarrow> real list
     \<Rightarrow> py_error + ModelGrid" where
  "ModelGrid_init sp md ps smooth_arg resolution snap_arg bins =
     (case plims_loop (m_cols md) ps Map.empty of
        Inl e \<Rightarrow> Inl e
      | Inr pl \<Rightarrow>
          if m_wavelength md = [] \<or> s_wavelength sp = [] then Inl IndexError
          else
            let check_diff = m_wavelength md ! 0 - s_wavelength sp ! 0;
                self0 = \<lparr>model = md, wavelength_bins = bins, params = ps, plims = pl,
                         smooth = smooth_arg, wave = s_wavelength sp, flux = s_flux sp,
                         unc = s_unc sp,
                         interp = (\<not> (length (m_wavelength md) = length (s_wavelength sp)
                                      \<and> \<bar>check_diff\<bar> < 1 / 10 ^ 10)),
                         is_grid_complete = False, snap = False\<rparr>
            in (case check_grid_coverage self0 of
                  Inl e \<Rightarrow> Inl e
                | Inr is_full \<Rightarrow>
                    let self1 = self0\<lparr>is_grid_complete := is_full\<rparr>;
                        self2 = (if is_full = False then self1\<lparr>snap := True\<rparr>
                                 else self1\<lparr>snap := snap_arg\<rparr>);
                        self3 = self2\<lparr>snap := snap_arg\<rparr>
                    in if m_flux md = [] then Inl IndexError else Inr self3))"

subsection \<open>\<open>interp_models\<close>: edges and corners\<close>

text \<open>
  The entry of \<open>grid_edges\<close> for one parameter with the grid values \<open>vs\<close> and the
  requested value \<open>x\<close>: the value itself when it is on the grid (the index then joins
  \<open>single_flags\<close>), else the nearest grid values below and above. \<open>max\<close> and \<open>min\<close> of
  an empty selection raise.
\<close>

definition grid_edge :: "real list \<Rightarrow> real \<Rightarrow> py_error + real list" where
  "grid_edge vs x =
     (if x \<in> set vs then Inr [x]
      else (case py_max (filter (\<lambda>v. v < x) vs) of
              Inl e \<Rightarrow> Inl e
            | Inr dn_val \<Rightarrow>
                (case py_min (filter (\<lambda>v. x < v) vs) of
                   Inl e \<Rightarrow> Inl e
                 | Inr up_val \<Rightarrow> Inr [dn_val, up_val])))"

text \<open>
  The first loop of \<open>interp_models\<close>. The dictionary \<open>grid_edges\<close> is keyed by the
  parameter name; here it is the list of its entries in the order of \<open>self.params\<close>,
  which is the same thing when the names in \<open>self.params\<close> are distinct. An entry has
  one element exactly when its index is in \<open>single_flags\<close>. The dictionary
  \<open>edge_inds\<close> filled by the same loop is never read.
\<close>

definition edges_at :: "ModelGrid \<Rightarrow> real list \<Rightarrow> nat \<Rightarrow> py_error + real list" where
  "edges_at g p i =
     (if i < length p
      then (case plims_vals g i of Inl e \<Rightarrow> Inl e | Inr vs \<Rightarrow> grid_edge vs (p ! i))
      else Inl IndexError)"

definition grid_edges :: "ModelGrid \<Rightarrow> real list \<Rightarrow> py_error + real list list" where
  "grid_edges g p = collect (map (edges_at g p) [0..<ndim g])"

definition single_flags :: "real list list \<Rightarrow> nat list" where
  "single_flags edges = filter (\<lambda>i. length (edges ! i) = 1) [0..<length edges]"

definition to_interp :: "real list list \<Rightarrow> nat list" where
  "to_interp edges = filter (\<lambda>i. i \<notin> set (single_flags edges)) [0..<length edges]"

text \<open>
  Whether row \<open>r\<close> of \<open>grid_corners\<close> takes the upper edge in the interpolated
  column \<open>i\<close>: \<open>loc = (np.arange(num_spectra)/div_by) % 2\<close> is nonzero, with
  \<open>div_by = 1\<close> when there are two spectra and \<open>2**(ndim - len(single_flags) - i - 1)\<close>
  otherwise. The exponent is negative as soon as a pinned parameter precedes an
  interpolated one; the quotient of \<open>r\<close> by the float \<open>1/2**n\<close> is the float of the
  integer \<open>r * 2**n\<close>.
\<close>

definition corner_loc :: "neg_power \<Rightarrow> nat \<Rightarrow> int \<Rightarrow> nat \<Rightarrow> py_error + bool" where
  "corner_loc np num_spectra e r =
     (if num_spectra = 2 then Inr (r mod 2 \<noteq> 0)
      else if 0 \<le> e then Inr ((r div 2 ^ nat e) mod 2 \<noteq> 0)
      else (case np of
              RaisesValueError \<Rightarrow> Inl ValueError
            | GivesReciprocal \<Rightarrow> Inr ((r * 2 ^ nat (- e)) mod 2 \<noteq> 0)))"

definition corner_entry ::
  "neg_power \<Rightarrow> real list list \<Rightarrow> nat \<Rightarrow> nat \<Rightarrow> py_error + real" where
  "corner_entry np edges r i =
     (let k = length edges - length (single_flags edges) in
      if i \<in> set (single_flags edges) then Inr (edges ! i ! 0)
      else (case corner_loc np (2 ^ k) (int k - int i - 1) r of
              Inl e \<Rightarrow> Inl e
            | Inr upper \<Rightarrow> Inr (edges ! i ! (if upper then 1 else 0))))"

text \<open>The table \<open>grid_corners\<close>, one row per corner.\<close>

definition grid_corners :: "neg_power \<Rightarrow> real list list \<Rightarrow> py_error + real list list" where
  "grid_corners np edges =
     (let num_spectra = 2 ^ (length edges - length (single_flags edges)) in
      collect (map (\<lambda>r. collect (map (corner_entry np edges r) [0..<length edges]))
                   [0..<num_spectra]))"

text \<open>
  \<open>find_i\<close> for the corner \<open>cpar\<close>: the indices of the models whose coordinates all
  equal the corner's. The mask starts with the length of the first parameter's column.
\<close>

definition find_i :: "ModelGrid \<Rightarrow> real list \<Rightarrow> py_error + nat list" where
  "find_i g cpar =
     (case plims_vals g 0 of
        Inl e \<Rightarrow> Inl e
      | Inr v0 \<Rightarrow>
          (case collect (map (plims_vals g) [0..<ndim g]) of
             Inl e \<Rightarrow> Inl e
           | Inr vss \<Rightarrow>
               Inr (filter (\<lambda>j. list_all (\<lambda>i. cpar ! i = vss ! i ! j) [0..<ndim g])
                           [0..<length v0])))"

text \<open>
  The loop that fills \<open>corner_spectra\<close>, a dictionary from corner tuples to flux rows.
  \<open>None\<close> is the early \<open>return\<close> of the array of -99s.
\<close>

fun corner_loop ::
  "ModelGrid \<Rightarrow> real list list \<Rightarrow> (real list \<Rightarrow> real list option)
     \<Rightarrow> py_error + (real list \<Rightarrow> real list option) option" where
  "corner_loop g [] corner_spectra = Inr (Some corner_spectra)"
| "corner_loop g (cpar # rest) corner_spectra =
     (case find_i g cpar of
        Inl e \<Rightarrow> Inl e
      | Inr idx \<Rightarrow>
          if length idx \<noteq> 1 then Inr None
          else if idx ! 0 < length (m_flux (model g))
          then corner_loop g rest (corner_spectra(cpar \<mapsto> m_flux (model g) ! (idx ! 0)))
          else Inl IndexError)"

subsection \<open>\<open>interp_models\<close>: the reduction\<close>

text \<open>The blending weight of lines 391 to 395.\<close>

definition coeff :: "string \<Rightarrow> real \<Rightarrow> real \<Rightarrow> real \<Rightarrow> real" where
  "coeff name x interp1 interp2 =
     (if name = ''teff'' then (x ^ 4 - interp1 ^ 4) * 1 / (interp2 ^ 4 - interp1 ^ 4)
      else (x - interp1) * 1 / (interp2 - interp1))"

text \<open>\<open>ns1 + (ns2-ns1)*coeff\<close> on two flux rows of one length.\<close>

definition blend :: "real \<Rightarrow> real list \<Rightarrow> real list \<Rightarrow> real list" where
  "blend c ns1 ns2 = map (\<lambda>(a, b). a + (b - a) * c) (zip ns1 ns2)"

fun blend_loop ::
  "real \<Rightarrow> real \<Rightarrow> real \<Rightarrow> real list list \<Rightarrow> (real list \<Rightarrow> real list option)
     \<Rightarrow> (real list \<Rightarrow> real list option) \<Rightarrow> py_error + (real list \<Rightarrow> real list option)" where
  "blend_loop c interp1 interp2 [] old_spectra new_spectra = Inr new_spectra"
| "blend_loop c interp1 interp2 (cpar # rest) old_spectra new_spectra =
     (case old_spectra (interp1 # cpar) of
        None \<Rightarrow> Inl KeyError
      | Some ns1 \<Rightarrow>
          (case old_spectra (interp2 # cpar) of
             None \<Rightarrow> Inl KeyError
           | Some ns2 \<Rightarrow>
               blend_loop c interp1 interp2 rest old_spectra
                 (new_spectra(cpar \<mapsto> blend c ns1 ns2))))"

fun copy_loop ::
  "real \<Rightarrow> real list list \<Rightarrow> (real list \<Rightarrow> real list option)
     \<Rightarrow> (real list \<Rightarrow> real list option) \<Rightarrow> py_error + (real list \<Rightarrow> real list option)" where
  "copy_loop skip_var [] old_spectra new_spectra = Inr new_spectra"
| "copy_loop skip_var (cpar # rest) old_spectra new_spectra =
     (case old_spectra (skip_var # cpar) of
        None \<Rightarrow> Inl KeyError
      | Some ns \<Rightarrow> copy_loop skip_var rest old_spectra (new_spectra(cpar \<mapsto> ns)))"

text \<open>
  The loop \<open>for i in range(self.ndim)\<close> of the reduction, over the indices still to
  visit: an interpolated parameter halves the corners, a pinned one only drops its
  column.
\<close>

fun reduce_loop ::
  "ModelGrid \<Rightarrow> real list \<Rightarrow> real list list \<Rightarrow> nat list \<Rightarrow> real list list
     \<Rightarrow> (real list \<Rightarrow> real list option)
     \<Rightarrow> py_error + (real list list \<times> (real list \<Rightarrow> real list option))" where
  "reduce_loop g p edges [] old_corners old_spectra = Inr (old_corners, old_spectra)"
| "reduce_loop g p edges (i # rest) old_corners old_spectra =
     (if i \<in> set (to_interp edges) then
        (let interp1 = old_corners ! 0 ! 0;
             interp2 = old_corners ! (length old_corners div 2) ! 0;
             c = coeff (params g ! i) (p ! i) interp1 interp2;
             new_corners = map tl (take (length old_corners div 2) old_corners)
         in case blend_loop c interp1 interp2 new_corners old_spectra Map.empty of
              Inl e \<Rightarrow> Inl e
            | Inr new_spectra \<Rightarrow> reduce_loop g p edges rest new_corners new_spectra)
      else if i \<in> set (single_flags edges) then
        (let skip_var = old_corners ! 0 ! 0;
             new_corners = map tl old_corners
         in case copy_loop skip_var new_corners old_spectra Map.empty of
              Inl e \<Rightarrow> Inl e
            | Inr new_spectra \<Rightarrow> reduce_loop g p edges rest new_corners new_spectra)
      else reduce_loop g p edges rest old_corners old_spectra)"

text \<open>
  The tail shared by \<open>interp_models\<close> (lines 437 to 455) and \<open>retrieve_model\<close> (lines
  619 to 637): smoothing, resampling, normalization. The call of \<open>falt2\<close> evaluates the
  name \<open>resolution\<close>, which is no local variable and no attribute.
\<close>

definition finish_flux :: "pyenv \<Rightarrow> ModelGrid \<Rightarrow> real list \<Rightarrow> py_error + real list" where
  "finish_flux env g mod_flux =
     (case (if smooth g
            then (case resolution_global env of
                    None \<Rightarrow> Inl NameError
                  | Some r \<Rightarrow> Inr (falt2 env (m_wavelength (model g)) mod_flux r))
            else Inr mod_flux) of
        Inl e \<Rightarrow> Inl e
      | Inr smoothed \<Rightarrow>
          normalize_model (flux g) (unc g)
            (if interp g then np_interp env (wave g) (m_wavelength (model g)) smoothed
             else smoothed))"

text \<open>The array \<open>np.ones(len(self.wave))*-99.0\<close>.\<close>

definition sentinel :: "ModelGrid \<Rightarrow> real list" where
  "sentinel g = replicate (length (wave g)) (- 99)"

definition interp_models :: "pyenv \<Rightarrow> ModelGrid \<Rightarrow> real list \<Rightarrow> py_error + real list" where
  "interp_models env g p =
     (case grid_edges g p of
        Inl e \<Rightarrow> Inl e
      | Inr edges \<Rightarrow>
          (case grid_corners (neg_int_power env) edges of
             Inl e \<Rightarrow> Inl e
           | Inr corners \<Rightarrow>
               (case corner_loop g corners Map.empty of
                  Inl e \<Rightarrow> Inl e
                | Inr None \<Rightarrow> Inr (sentinel g)
                | Inr (Some corner_spectra) \<Rightarrow>
                    (case reduce_loop g p edges [0..<ndim g] corners corner_spectra of
                       Inl e \<Rightarrow> Inl e
                     | Inr (old_corners, old_spectra) \<Rightarrow>
                         (case old_spectra [] of
                            None \<Rightarrow> Inl KeyError
                          | Some mod_flux \<Rightarrow> finish_flux env g mod_flux)))))"

subsection \<open>\<open>retrieve_model\<close>\<close>

text \<open>\<open>argmin\<close> of a non-empty array: the first index of the least value.\<close>

fun argmin_from :: "real list \<Rightarrow> nat \<Rightarrow> nat \<Rightarrow> real \<Rightarrow> nat" where
  "argmin_from [] j best_j best = best_j"
| "argmin_from (d # ds) j best_j best =
     (if d < best then argmin_from ds (Suc j) j d else argmin_from ds (Suc j) best_j best)"

definition find_nearest :: "real list \<Rightarrow> real \<Rightarrow> py_error + nat list" where
  "find_nearest arr val =
     (case map (\<lambda>a. \<bar>a - val\<bar>) arr of
        [] \<Rightarrow> Inl ValueError
      | d # ds \<Rightarrow>
          let close_val = arr ! argmin_from ds 1 0 d
          in Inr (np_where (\<lambda>a. \<bar>a - close_val\<bar> \<le> 1 / 10 ^ 5) arr))"

text \<open>
  The loop of \<open>find_nearest2\<close>, started with \<open>min_distance = 1e10\<close> and
  \<open>matched_i = -99\<close>. The average of an empty difference is \<open>nan\<close>, which compares
  false both ways.
\<close>

fun find_nearest2_loop ::
  "real list \<Rightarrow> real list list \<Rightarrow> nat \<Rightarrow> real \<Rightarrow> int \<Rightarrow> py_error + int" where
  "find_nearest2_loop p_values [] i min_distance matched_i = Inr matched_i"
| "find_nearest2_loop p_values (mod_params # rest) i min_distance matched_i =
     (case np_binop (-) mod_params p_values of
        Inl e \<Rightarrow> Inl e
      | Inr diff \<Rightarrow>
          let check_distance = sum_list (map abs diff) / real (length diff)
          in if diff = [] then find_nearest2_loop p_values rest (Suc i) min_distance matched_i
             else if check_distance = min_distance
             then find_nearest2_loop p_values rest (Suc i) min_distance matched_i
             else if check_distance < min_distance
             then find_nearest2_loop p_values rest (Suc i) check_distance (int i)
             else find_nearest2_loop p_values rest (Suc i) min_distance matched_i)"

definition find_nearest2 :: "real list list \<Rightarrow> real list \<Rightarrow> py_error + int" where
  "find_nearest2 param_arrays p_values =
     find_nearest2_loop p_values param_arrays 0 (10 ^ 10) (- 99)"

text \<open>Indexing with an integer that may be negative.\<close>

definition py_index :: "'a list \<Rightarrow> int \<Rightarrow> py_error + 'a" where
  "py_index xs j =
     (let n = int (length xs); j' = (if j < 0 then j + n else j)
      in if 0 \<le> j' \<and> j' < n then Inr (xs ! nat j') else Inl IndexError)"

text \<open>The loop of the complete-grid branch of \<open>retrieve_model\<close>.\<close>

fun nearest_loop ::
  "ModelGrid \<Rightarrow> real list \<Rightarrow> nat list \<Rightarrow> nat list \<Rightarrow> py_error + nat list" where
  "nearest_loop g p [] p_loc = Inr p_loc"
| "nearest_loop g p (i # rest) p_loc =
     (case m_cols (model g) (params g ! i) of
        None \<Rightarrow> Inl KeyError
      | Some arr \<Rightarrow>
          if i < length p
          then (case find_nearest arr (p ! i) of
                  Inl e \<Rightarrow> Inl e
                | Inr this_p_loc \<Rightarrow> nearest_loop g p rest (intersect1d p_loc this_p_loc))
          else Inl IndexError)"

text \<open>The list \<open>param_arrays\<close> of the incomplete-grid branch: one coordinate tuple per
  model.\<close>

definition param_arrays :: "ModelGrid \<Rightarrow> py_error + real list list" where
  "param_arrays g =
     (case plims_vals g 0 of
        Inl e \<Rightarrow> Inl e
      | Inr v0 \<Rightarrow>
          collect (map (\<lambda>j. collect (map (\<lambda>i. case plims_vals g i of
                                                  Inl e \<Rightarrow> Inl e
                                                | Inr vs \<Rightarrow> if j < length vs then Inr (vs ! j)
                                                            else Inl IndexError)
                                           [0..<ndim g]))
                       [0..<length v0]))"

text \<open>
  \<open>retrieve_model\<close>. \<open>self.model['flux'][p_loc]\<close> is an array of one row; the \<open>while\<close>
  loop unwraps it, and goes one step further into a scalar (which has no \<open>len\<close>) when
  the row itself has one entry.
\<close>

definition retrieve_model :: "pyenv \<Rightarrow> ModelGrid \<Rightarrow> real list \<Rightarrow> py_error + real list" where
  "retrieve_model env g p =
     (case (if is_grid_complete g
            then (case nearest_loop g p [0..<ndim g] [0..<length (m_flux (model g))] of
                    Inl e \<Rightarrow> Inl e
                  | Inr p_loc \<Rightarrow> Inr (map int p_loc))
            else (case param_arrays g of
                    Inl e \<Rightarrow> Inl e
                  | Inr pa \<Rightarrow>
                      (case find_nearest2 pa p of Inl e \<Rightarrow> Inl e | Inr j \<Rightarrow> Inr [j]))) of
        Inl e \<Rightarrow> Inl e
      | Inr p_loc \<Rightarrow>
          if length p_loc = 1
          then (case py_index (m_flux (model g)) (p_loc ! 0) of
                  Inl e \<Rightarrow> Inl e
                | Inr row \<Rightarrow> if length row = 1 then Inl TypeError else finish_flux env g row)
          else Inr (sentinel g))"

subsection \<open>The posterior evaluation \<open>__call__\<close>\<close>

text \<open>The loop of the bounds check; \<open>True\<close> is its \<open>return -np.inf\<close>.\<close>

fun bounds_loop :: "ModelGrid \<Rightarrow> real list \<Rightarrow> nat list \<Rightarrow> py_error + bool" where
  "bounds_loop g model_p [] = Inr False"
| "bounds_loop g model_p (i # rest) =
     (if i < length model_p
      then (case plims_entry g i of
              Inl e \<Rightarrow> Inl e
            | Inr pl \<Rightarrow>
                if model_p ! i > max_val pl \<or> model_p ! i < min_val pl then Inr True
                else bounds_loop g model_p rest)
      else Inl IndexError)"

text \<open>Lines 260 to 274: the value returned when nothing rejects the parameters.\<close>

definition lnprob_value ::
  "ModelGrid \<Rightarrow> real \<Rightarrow> real list \<Rightarrow> real list \<Rightarrow> py_error + real" where
  "lnprob_value g lns normalization mod_flux =
     (let s = exp lns in
      case np_binop (*) (map (\<lambda>u. u ^ 2 + s ^ 2) (unc g)) (map (\<lambda>n. n ^ 2) normalization) of
        Inl e \<Rightarrow> Inl e
      | Inr unc_sq \<Rightarrow>
          (case np_binop (*) mod_flux normalization of
             Inl e \<Rightarrow> Inl e
           | Inr scaled \<Rightarrow>
               (case np_binop (-) (flux g) scaled of
                  Inl e \<Rightarrow> Inl e
                | Inr resid \<Rightarrow>
                    (case np_binop (/) (map (\<lambda>d. d ^ 2) resid) unc_sq of
                       Inl e \<Rightarrow> Inl e
                     | Inr flux_pts \<Rightarrow>
                         (case np_binop (+) flux_pts (map (\<lambda>v. ln (2 * pi * v)) unc_sq) of
                            Inl e \<Rightarrow> Inl e
                          | Inr terms \<Rightarrow> Inr (- 0.5 * sum_list terms))))))"

text \<open>
  \<open>__call__\<close> on the parameter vector \<open>p\<close>: the fit parameters \<open>p[:ndim]\<close>, the
  normalization values \<open>p[ndim:-1]\<close> and \<open>ln(s) = p[-1]\<close>. The normalization is computed
  before anything is rejected.
\<close>

definition ModelGrid_call :: "pyenv \<Rightarrow> ModelGrid \<Rightarrow> real list \<Rightarrow> py_error + lnprob" where
  "ModelGrid_call env g p =
     (if p = [] then Inl IndexError
      else
        let model_p = take (ndim g) p;
            lns = last p;
            norm_values = drop (ndim g) (butlast p)
        in (case calc_normalization (wave g) norm_values (wavelength_bins g) of
              Inl e \<Rightarrow> Inl e
            | Inr normalization \<Rightarrow>
                if lns > 1 then Inr NegInf
                else
                  (case bounds_loop g model_p [0..<ndim g] of
                     Inl e \<Rightarrow> Inl e
                   | Inr True \<Rightarrow> Inr NegInf
                   | Inr False \<Rightarrow>
                       (case (if snap g then retrieve_model env g model_p
                              else interp_models env g model_p) of
                          Inl e \<Rightarrow> Inl e
                        | Inr mod_flux \<Rightarrow>
                            if sum_list mod_flux < 0 then Inr NegInf
                            else (case lnprob_value g lns normalization mod_flux of
                                    Inl e \<Rightarrow> Inl e
                                  | Inr v \<Rightarrow> Inr (Finite v))))))"

subsection \<open>Well-formed grids\<close>

text \<open>
  The shape the data model promises and the constructor leaves behind: distinct
  parameter names; for every fit parameter a non-empty coordinate column with one entry
  per model, and its entry of \<open>plims\<close>; flux rows on the model wavelength axis; a
  non-empty spectrum of one length, which is the length of the model axis when no
  resampling is needed.
\<close>

definition wf_grid :: "ModelGrid \<Rightarrow> bool" where
  "wf_grid g \<longleftrightarrow>
     distinct (params g)
     \<and> list_all (\<lambda>name. case m_cols (model g) name of
                          None \<Rightarrow> False
                        | Some vs \<Rightarrow>
                            vs \<noteq> [] \<and> length vs = length (m_flux (model g))
                            \<and> plims g name
                                = Some \<lparr>vals = vs, min_val = Min (set vs), max_val = Max (set vs)\<rparr>)
                (params g)
     \<and> list_all (\<lambda>row. length row = length (m_wavelength (model g))) (m_flux (model g))
     \<and> wave g \<noteq> [] \<and> length (flux g) = length (wave g) \<and> length (unc g) = length (wave g)
     \<and> (interp g \<or> length (m_wavelength (model g)) = length (wave g))"

subsection \<open>Example objects\<close>

text \<open>
  A spectrum of two samples on the model wavelength axis, and two sets of models over
  \<open>teff\<close> and \<open>logg\<close>: the four models of the grid 1400, 1600 by 4.5, 5.0, and the same
  without the model at (1600, 5.0). \<open>grid_full\<close> and \<open>grid_hole\<close> are the objects the
  constructor builds from them with \<open>smooth=False\<close>, \<open>snap=False\<close> and the default
  bins (see \<open>init_grid_full\<close> and \<open>init_grid_hole\<close> below).
\<close>

definition data_spectrum :: spectrum where
  "data_spectrum = \<lparr>s_wavelength = [1, 2], s_flux = [2, 4], s_unc = [1, 2]\<rparr>"

definition models_full :: model_dict where
  "models_full =
     \<lparr>m_wavelength = [1, 2], m_flux = [[1, 2], [2, 3], [3, 1], [4, 4]],
      m_cols = [''teff'' \<mapsto> [1400, 1400, 1600, 1600], ''logg'' \<mapsto> [4.5, 5.0, 4.5, 5.0]]\<rparr>"

definition models_hole :: model_dict where
  "models_hole =
     \<lparr>m_wavelength = [1, 2], m_flux = [[1, 2], [2, 3], [3, 1]],
      m_cols = [''teff'' \<mapsto> [1400, 1400, 1600], ''logg'' \<mapsto> [4.5, 5.0, 4.5]]\<rparr>"

definition grid_full :: ModelGrid where
  "grid_full =
     \<lparr>model = models_full, wavelength_bins = [0.9, 1.4, 1.9, 2.5],
      params = [''teff'', ''logg''],
      plims = [''teff'' \<mapsto> \<lparr>vals = [1400, 1400, 1600, 1600], min_val = 1400, max_val = 1600\<rparr>,
               ''logg'' \<mapsto> \<lparr>vals = [4.5, 5.0, 4.5, 5.0], min_val = 4.5, max_val = 5.0\<rparr>],
      smooth = False, wave = [1, 2], flux = [2, 4], unc = [1, 2], interp = False,
      is_grid_complete = False, snap = False\<rparr>"

definition grid_hole :: ModelGrid where
  "grid_hole =
     \<lparr>model = models_hole, wavelength_bins = [0.9, 1.4, 1.9, 2.5],
      params = [''teff'', ''logg''],
      plims = [''teff'' \<mapsto> \<lparr>vals = [1400, 1400, 1600], min_val = 1400, max_val = 1600\<rparr>,
               ''logg'' \<mapsto> \<lparr>vals = [4.5, 5.0, 4.5], min_val = 4.5, max_val = 5.0\<rparr>],
      smooth = False, wave = [1, 2], flux = [2, 4], unc = [1, 2], interp = False,
      is_grid_complete = False, snap = False\<rparr>"

text \<open>An environment with the older numpy, no global \<open>resolution\<close>, and collaborators
  that return the flux unchanged.\<close>

definition env_plain :: pyenv where
  "env_plain =
     \<lparr>neg_int_power = GivesReciprocal, resolution_global = None,
      falt2 = (\<lambda>w f r. f), np_interp = (\<lambda>x xp fp. fp)\<rparr>"

section \<open>Properties\<close>

subsection \<open>Helper facts on the array primitives\<close>

lemma np_binop_same_length:
  "length xs = length ys \<Longrightarrow> np_binop f xs ys = Inr (map (\<lambda>(x, y). f x y) (zip xs ys))"
  by (simp add: np_binop_def)

lemma sum_ratio_same_length:
  assumes "length xs = length ys" and "length ys = length un"
  shows "sum_ratio xs ys un =
           Inr (\<Sum>(x, y, u) \<leftarrow> zip xs (zip ys un). x * y / u ^ 2)"
proof -
  have len: "length (map (\<lambda>(x, y). x * y) (zip xs ys)) = length (map (\<lambda>u. u ^ 2) un)"
    using assms by simp
  have "map (\<lambda>(p, d). p / d) (zip (map (\<lambda>(x, y). x * y) (zip xs ys)) (map (\<lambda>u. u ^ 2) un))
        = map (\<lambda>(x, y, u). x * y / u ^ 2) (zip xs (zip ys un))"
    using assms
  proof (induction xs arbitrary: ys un)
    case Nil
    then show ?case by simp
  next
    case (Cons x xs)
    then obtain y ys' where ys: "ys = y # ys'" by (cases ys) auto
    with Cons.prems obtain u un' where un: "un = u # un'" by (cases un) auto
    from Cons.prems ys un have "length xs = length ys'" "length ys' = length un'" by auto
    from Cons.IH [OF this] show ?case by (simp add: ys un)
  qed
  then show ?thesis
    using assms by (simp add: sum_ratio_def np_binop_same_length len)
qed

subsection \<open>The normalization by wavelength bin\<close>

text \<open>
  Claim C3. \<open>calc_normalization\<close> is claimed to give every sample the value of the bin
  that brackets it and to clamp outside the edges: below the first edge the first bin's
  value, above the last edge the last bin's value. The docstring of the function says
  the same (\<open>set to the same as the nearest bin\<close>). The code reads \<open>n_values[i]\<close> with
  the loop variable left at the last index in both clamping assignments: with the edges
  0.9, 1.4, 1.9, 2.5 and the values 1, 2, 3 the sample at 1.65 receives 2 and the sample
  at 3.0 receives 3, but the sample at 0.5 receives 3, not 1.
\<close>

theorem calc_normalization_below_first_edge:
  "calc_normalization [0.5, 1.65, 3.0] [1, 2, 3] [0.9, 1.4, 1.9, 2.5] = Inr [3, 2, 3]"
  by (simp add: calc_normalization_def assign_where_def upt_rec)

subsection \<open>The least-squares scale factor\<close>

text \<open>
  Claim C10. For arrays of one length, \<open>normalize_model\<close> computes
  \<open>ck = sum(data_flux * model_flux / unc^2) / sum(model_flux^2 / unc^2)\<close> and returns
  \<open>model_flux * ck\<close>; when neither this denominator nor the denominator of the second
  run is zero, computing \<open>ck\<close> again on the scaled array gives exactly 1.
\<close>

theorem normalize_model_round_trip:
  assumes len: "length fl = length mf" "length mf = length un"
    and d1: "(\<Sum>(m, m', u) \<leftarrow> zip mf (zip mf un). m * m' / u ^ 2) \<noteq> 0"
    and run: "normalize_model_ck fl un mf = Inr (scaled, ck)"
    and d2: "(\<Sum>(m, m', u) \<leftarrow> zip scaled (zip scaled un). m * m' / u ^ 2) \<noteq> 0"
  shows "ck = (\<Sum>(d, m, u) \<leftarrow> zip fl (zip mf un). d * m / u ^ 2)
              / (\<Sum>(m, m', u) \<leftarrow> zip mf (zip mf un). m * m' / u ^ 2)
         \<and> scaled = map (\<lambda>m. m * ck) mf
         \<and> normalize_model fl un mf = Inr scaled
         \<and> (\<exists>scaled'. normalize_model_ck fl un scaled = Inr (scaled', 1))"
proof -
  let ?A = "\<Sum>(d, m, u) \<leftarrow> zip fl (zip mf un). d * m / u ^ 2"
  let ?B = "\<Sum>(m, m', u) \<leftarrow> zip mf (zip mf un). m * m' / u ^ 2"
  have s1: "sum_ratio fl mf un = Inr ?A" and s2: "sum_ratio mf mf un = Inr ?B"
    using len by (simp_all add: sum_ratio_same_length)
  from run have ck: "ck = ?A / ?B" and sc: "scaled = map (\<lambda>m. m * ck) mf"
    by (auto simp: normalize_model_ck_def s1 s2 Let_def)
  have nm: "normalize_model fl un mf = Inr scaled"
    by (simp add: normalize_model_def run)
  have lens: "length fl = length scaled" "length scaled = length un"
    using len sc by simp_all
  have A': "(\<Sum>(d, m, u) \<leftarrow> zip fl (zip scaled un). d * m / u ^ 2) = ck * ?A"
    using len unfolding sc
  proof (induction fl arbitrary: mf un)
    case Nil
    then show ?case by simp
  next
    case (Cons d fl)
    then obtain m mf' where mf: "mf = m # mf'" by (cases mf) auto
    with Cons.prems obtain u un' where un: "un = u # un'" by (cases un) auto
    from Cons.prems mf un have "length fl = length mf'" "length mf' = length un'" by auto
    from Cons.IH [OF this] show ?case by (simp add: mf un algebra_simps)
  qed
  have B': "(\<Sum>(m, m', u) \<leftarrow> zip scaled (zip scaled un). m * m' / u ^ 2) = ck * ck * ?B"
    using len(2) unfolding sc
  proof (induction mf arbitrary: un)
    case Nil
    then show ?case by simp
  next
    case (Cons m mf)
    then obtain u un' where un: "un = u # un'" by (cases un) auto
    from Cons.prems un have "length mf = length un'" by auto
    from Cons.IH [OF this] show ?case by (simp add: un algebra_simps)
  qed
  from d2 B' have ck0: "ck \<noteq> 0" by auto
  have ckB: "ck * ?B = ?A"
    using d1 ck by simp
  with ck0 d1 have A0: "?A \<noteq> 0"
    by auto
  have "ck * ?A / (ck * ck * ?B) = ?A / (ck * ?B)"
    using ck0 by simp
  also have "\<dots> = 1"
    using A0 ckB by simp
  finally have "ck * ?A / (ck * ck * ?B) = 1" .
  then have "normalize_model_ck fl un scaled = Inr (map (\<lambda>m. m * 1) scaled, 1)"
    using lens A' B' by (simp add: normalize_model_ck_def sum_ratio_same_length Let_def)
  with ck sc nm show ?thesis by blast
qed

theorem normalize_model_round_trip_witness:
  "normalize_model_ck [2, 4] [1, 1] [1, 2] = Inr ([2, 4], 2)
   \<and> normalize_model [2, 4] [1, 1] [1, 2] = Inr [2, 4]
   \<and> (\<exists>scaled'. normalize_model_ck [2, 4] [1, 1] [2, 4] = Inr (scaled', 1))"
proof -
  have run: "normalize_model_ck [2, 4] [1, 1] [1, 2] = Inr ([2, 4], 2)"
    by (simp add: normalize_model_ck_def sum_ratio_def np_binop_def)
  have "(2::real) = (\<Sum>(d, m, u) \<leftarrow> zip [2, 4] (zip [1, 2] [1, 1]). d * m / u ^ 2)
              / (\<Sum>(m, m', u) \<leftarrow> zip [1, 2] (zip [1, 2] [1, 1]). m * m' / u ^ 2)
         \<and> [2, 4] = map (\<lambda>m. m * (2::real)) [1, 2]
         \<and> normalize_model [2, 4] [1, 1] [1, 2] = Inr [2, 4]
         \<and> (\<exists>scaled'. normalize_model_ck [2, 4] [1, 1] [2, 4] = Inr (scaled', (1::real)))"
    by (rule normalize_model_round_trip [OF _ _ _ run]) simp_all
  with run show ?thesis by blast
qed

subsection \<open>Evaluation of concrete grids\<close>

lemmas init_eval =
  ModelGrid_init_def check_grid_coverage_def ndim_def plims_vals_def plims_entry_def
  unique_combinations_def np_unique_def intersect1d_def np_where_def upt_rec Let_def
  spec_grid_coverage_def

lemmas retrieval_eval =
  grid_edges_def edges_at_def grid_edge_def grid_corners_def corner_entry_def corner_loc_def
  single_flags_def to_interp_def interp_models_def find_i_def finish_flux_def
  retrieve_model_def param_arrays_def find_nearest2_def py_index_def np_binop_def
  ModelGrid_call_def calc_normalization_def assign_where_def sentinel_def

subsection \<open>Snap mode after construction\<close>

lemma init_snap_is_argument:
  "ModelGrid_init sp md ps sm r sn bins = Inr g \<Longrightarrow> snap g = sn"
  by (auto simp: ModelGrid_init_def Let_def split: sum.splits if_splits)


text \<open>
  Claim C1. A \<open>ModelGrid\<close> built on an incomplete grid is claimed to have snap mode on
  even when the caller passed \<open>snap=False\<close>. The constructor does set \<open>self.snap = True\<close>
  in the branch for an incomplete grid (lines 176 to 178), and then line 182 assigns
  \<open>self.snap = snap\<close> unconditionally. For the three models (1400, 4.5), (1400, 5.0),
  (1600, 4.5), where the combination (1600, 5.0) is missing, and \<open>snap=False\<close>, the
  object has \<open>is_grid_complete = False\<close> and \<open>snap = False\<close>.
\<close>

theorem init_incomplete_grid_snap_off:
  "map_sum id (\<lambda>g. (is_grid_complete g, snap g))
     (ModelGrid_init \<lparr>s_wavelength = [1, 2], s_flux = [1, 1], s_unc = [1, 1]\<rparr>
        \<lparr>m_wavelength = [1, 2], m_flux = [[1, 1], [2, 2], [3, 3]],
         m_cols = [''teff'' \<mapsto> [1400, 1400, 1600], ''logg'' \<mapsto> [4.5, 5.0, 4.5]]\<rparr>
        [''teff'', ''logg''] False None False [0.9, 1.4, 1.9, 2.5])
   = Inr (False, False)
   \<and> \<not> spec_grid_coverage 3 [[1400, 1400, 1600], [4.5, 5.0, 4.5]]"
  by (simp add: init_eval)

subsection \<open>The coverage flag\<close>

text \<open>
  Claim C2. \<open>check_grid_coverage\<close> is claimed to return true exactly when every
  combination of the distinct values of the fit parameters is the coordinate tuple of a
  model, which is also what its docstring says. The loop over the combinations reads
  \<open>self.plims[self.params[i]]\<close> with the row number \<open>i\<close> where the column number \<open>j\<close> is
  meant. On the complete grid of the four models (1400, 4.5), (1400, 5.0), (1600, 4.5),
  (1600, 5.0) the first row compares the \<open>teff\<close> column with the value 4.5 of \<open>logg\<close>,
  finds no model, and the flag is false. On a grid of one parameter with the values
  1400 and 1600 the second row reads \<open>self.params[1]\<close> and the constructor raises
  \<open>IndexError\<close>.
\<close>

theorem check_grid_coverage_complete_grid_false:
  "map_sum id is_grid_complete
     (ModelGrid_init \<lparr>s_wavelength = [1, 2], s_flux = [1, 1], s_unc = [1, 1]\<rparr>
        \<lparr>m_wavelength = [1, 2], m_flux = [[1, 1], [2, 2], [3, 3], [4, 4]],
         m_cols = [''teff'' \<mapsto> [1400, 1400, 1600, 1600],
                   ''logg'' \<mapsto> [4.5, 5.0, 4.5, 5.0]]\<rparr>
        [''teff'', ''logg''] False None False [0.9, 1.4, 1.9, 2.5])
   = Inr False
   \<and> spec_grid_coverage 4 [[1400, 1400, 1600, 1600], [4.5, 5.0, 4.5, 5.0]]
   \<and> ModelGrid_init \<lparr>s_wavelength = [1, 2], s_flux = [1, 1], s_unc = [1, 1]\<rparr>
        \<lparr>m_wavelength = [1, 2], m_flux = [[1, 1], [2, 2]],
         m_cols = [''teff'' \<mapsto> [1400, 1600]]\<rparr>
        [''teff''] False None False [0.9, 1.4, 1.9, 2.5]
      = Inl IndexError"
  by (simp add: init_eval)

subsection \<open>The corners of the interpolation\<close>

text \<open>
  Claim C5. With \<open>k\<close> parameters strictly between grid values and the others on grid
  values, the corners gathered by \<open>interp_models\<close> are claimed to be the \<open>2^k\<close>
  combinations of lower and upper neighbours; the comment above the code says so too
  (\<open>half the lines will have the upper value and half will have the lower value\<close>).
  The divisor \<open>2**(ndim - len(single_flags) - i - 1)\<close> uses the position \<open>i\<close> of the
  parameter among all parameters, not among the interpolated ones. On the grid of
  \<open>teff\<close> in 1400, 1600, \<open>logg\<close> in 4.5, 5.0 and \<open>fsed\<close> in 1, 2, at the point
  (1400, 4.75, 1.5), the edges are 1400, then 4.5 and 5.0, then 1 and 2, and the
  exponent for \<open>fsed\<close> is -1: either \<open>2**(-1)\<close> raises \<open>ValueError\<close>, or every row takes
  the lower value 1 of \<open>fsed\<close> and the four rows hold two distinct corners only.
\<close>

theorem grid_corners_pinned_before_interpolated:
  "(case ModelGrid_init \<lparr>s_wavelength = [1, 2], s_flux = [1, 1], s_unc = [1, 1]\<rparr>
        \<lparr>m_wavelength = [1, 2],
         m_flux = [[1, 1], [2, 2], [3, 3], [4, 4], [5, 5], [6, 6], [7, 7], [8, 8]],
         m_cols = [''teff'' \<mapsto> [1400, 1400, 1400, 1400, 1600, 1600, 1600, 1600],
                   ''logg'' \<mapsto> [4.5, 4.5, 5.0, 5.0, 4.5, 4.5, 5.0, 5.0],
                   ''fsed'' \<mapsto> [1, 2, 1, 2, 1, 2, 1, 2]]\<rparr>
        [''teff'', ''logg'', ''fsed''] False None False [0.9, 1.4, 1.9, 2.5] of
      Inl e \<Rightarrow> None
    | Inr g \<Rightarrow> Some (grid_edges g [1400, 4.75, 1.5]))
   = Some (Inr [[1400], [4.5, 5.0], [1, 2]])
   \<and> grid_corners GivesReciprocal [[1400], [4.5, 5.0], [1, 2]]
      = Inr [[1400, 4.5, 1], [1400, 5.0, 1], [1400, 4.5, 1], [1400, 5.0, 1]]
   \<and> grid_corners RaisesValueError [[1400], [4.5, 5.0], [1, 2]] = Inl ValueError"
  by (simp add: init_eval retrieval_eval)

subsection \<open>Smoothing\<close>

text \<open>
  Claim C6. With the smoothing flag on, flux retrieval is claimed to smooth with the
  target resolution given to the constructor and to return normally. The constructor
  stores its \<open>resolution\<close> argument nowhere: two constructions that differ in it only
  give the same object. \<open>interp_models\<close> and \<open>retrieve_model\<close> pass the bare name
  \<open>resolution\<close> to \<open>falt2\<close>; where the module has no global of that name, retrieval on a
  grid built with \<open>smooth=True\<close> and \<open>resolution=120\<close> raises \<open>NameError\<close>, by
  interpolation, by snapping and through the posterior evaluation.
\<close>

theorem smoothing_resolution_dropped:
  "ModelGrid_init sp md ps sm r1 sn bins = ModelGrid_init sp md ps sm r2 sn bins
   \<and> (case ModelGrid_init \<lparr>s_wavelength = [1, 2], s_flux = [1, 1], s_unc = [1, 1]\<rparr>
          \<lparr>m_wavelength = [1, 2], m_flux = [[1, 1], [2, 2], [3, 3], [4, 4]],
           m_cols = [''teff'' \<mapsto> [1400, 1400, 1600, 1600],
                     ''logg'' \<mapsto> [4.5, 5.0, 4.5, 5.0]]\<rparr>
          [''teff'', ''logg''] True (Some 120) False [0.9, 1.4, 1.9, 2.5] of
        Inl e \<Rightarrow> None
      | Inr g \<Rightarrow>
          let env = \<lparr>neg_int_power = np, resolution_global = None, falt2 = smooth_fun,
                     np_interp = interp_fun\<rparr>
          in Some (smooth g, interp_models env g [1400, 4.5], retrieve_model env g [1400, 4.5],
                   ModelGrid_call env g [1400, 4.5, 1, 1, 1, 0]))
     = Some (True, Inl NameError, Inl NameError, Inl NameError)"
  by (simp add: init_eval retrieval_eval)

subsection \<open>Helper facts on the loops\<close>

lemma bins_loop_ok:
  "\<forall>i\<in>set js. Suc i < length bins \<Longrightarrow> \<exists>nz. bins_loop ws nv bins js nz0 = Inr nz"
  by (induction js arbitrary: nz0) auto

lemma calc_normalization_ok:
  assumes "(bins = [] \<and> length nv = 1) \<or> (nv \<noteq> [] \<and> length nv < length bins)"
  shows "\<exists>nz. calc_normalization ws nv bins = Inr nz"
proof -
  from assms consider "bins = []" "length nv = 1" | "nv \<noteq> []" "length nv < length bins"
    by blast
  then show ?thesis
  proof cases
    case 1
    then show ?thesis by (simp add: calc_normalization_def)
  next
    case 2
    then have "\<forall>i\<in>set [0..<length nv]. Suc i < length bins" by auto
    from bins_loop_ok [OF this]
    obtain nz where "bins_loop ws nv bins [0..<length nv] (replicate (length ws) 0) = Inr nz"
      by blast
    with 2 show ?thesis by (auto simp: calc_normalization_def Let_def)
  qed
qed

lemma bounds_loop_result:
  assumes "\<forall>i\<in>set js. i < length mp \<and> i < length (params g) \<and> plims g (params g ! i) \<noteq> None"
  shows "bounds_loop g mp js
         = Inr (\<exists>i\<in>set js. \<exists>pl. plims g (params g ! i) = Some pl
                                  \<and> (mp ! i < min_val pl \<or> max_val pl < mp ! i))"
  using assms
proof (induction js)
  case Nil
  then show ?case by simp
next
  case (Cons i js)
  then obtain pl where pl: "plims g (params g ! i) = Some pl" and i: "i < length mp" "i < length (params g)"
    by auto
  from Cons have IH: "bounds_loop g mp js
         = Inr (\<exists>i\<in>set js. \<exists>pl. plims g (params g ! i) = Some pl
                                  \<and> (mp ! i < min_val pl \<or> max_val pl < mp ! i))" by simp
  show ?case
    using pl i IH by (auto simp: plims_entry_def)
qed

lemma call_split:
  assumes "length mp = ndim g"
  shows "take (ndim g) (mp @ nv @ [lns]) = mp" "last (mp @ nv @ [lns]) = lns"
    "drop (ndim g) (butlast (mp @ nv @ [lns])) = nv"
  using assms by (simp_all add: butlast_append)

lemma wf_grid_column:
  assumes "wf_grid g" and "i < ndim g"
  shows "\<exists>vs. m_cols (model g) (params g ! i) = Some vs \<and> vs \<noteq> []
              \<and> length vs = length (m_flux (model g))
              \<and> plims g (params g ! i)
                  = Some \<lparr>vals = vs, min_val = Min (set vs), max_val = Max (set vs)\<rparr>"
proof -
  from assms(2) have mem: "params g ! i \<in> set (params g)"
    by (simp add: ndim_def)
  from assms(1)
  have "list_all (\<lambda>name. case m_cols (model g) name of
                          None \<Rightarrow> False
                        | Some vs \<Rightarrow>
                            vs \<noteq> [] \<and> length vs = length (m_flux (model g))
                            \<and> plims g name
                                = Some \<lparr>vals = vs, min_val = Min (set vs), max_val = Max (set vs)\<rparr>)
                (params g)"
    by (simp add: wf_grid_def)
  with mem
  have "case m_cols (model g) (params g ! i) of
          None \<Rightarrow> False
        | Some vs \<Rightarrow>
            vs \<noteq> [] \<and> length vs = length (m_flux (model g))
            \<and> plims g (params g ! i)
                = Some \<lparr>vals = vs, min_val = Min (set vs), max_val = Max (set vs)\<rparr>"
    by (simp add: list_all_iff)
  then show ?thesis
    by (cases "m_cols (model g) (params g ! i)") auto
qed

lemma wf_grid_plims_vals:
  assumes "wf_grid g" and "i < ndim g"
  shows "\<exists>vs. plims_vals g i = Inr vs \<and> length vs = length (m_flux (model g))"
proof -
  from wf_grid_column [OF assms] obtain vs where "length vs = length (m_flux (model g))"
    and "plims g (params g ! i)
         = Some \<lparr>vals = vs, min_val = Min (set vs), max_val = Max (set vs)\<rparr>"
    by blast
  with assms(2) show ?thesis
    by (simp add: plims_vals_def plims_entry_def ndim_def)
qed

lemma collect_Inr:
  "\<forall>r\<in>set rs. \<exists>x. r = Inr x \<Longrightarrow> \<exists>xs. collect rs = Inr xs"
proof (induction rs)
  case Nil
  then show ?case by simp
next
  case (Cons r rs)
  then obtain x xs where "r = Inr x" "collect rs = Inr xs" by auto
  then show ?case by simp
qed

lemma collect_map_Inr:
  "\<forall>x\<in>set xs. f x = Inr (h x) \<Longrightarrow> collect (map f xs) = Inr (map h xs)"
  by (induction xs) auto

lemma find_i_in_range:
  assumes wf: "wf_grid g" and nd: "params g \<noteq> []"
  shows "\<exists>idx. find_i g c = Inr idx \<and> (\<forall>j\<in>set idx. j < length (m_flux (model g)))"
proof -
  from nd have "0 < ndim g" by (simp add: ndim_def)
  from wf_grid_plims_vals [OF wf this]
  obtain v0 where v0: "plims_vals g 0 = Inr v0" "length v0 = length (m_flux (model g))"
    by blast
  have "\<forall>r\<in>set (map (plims_vals g) [0..<ndim g]). \<exists>x. r = Inr x"
  proof
    fix r assume "r \<in> set (map (plims_vals g) [0..<ndim g])"
    then obtain i where "i < ndim g" "r = plims_vals g i" by auto
    with wf_grid_plims_vals [OF wf, of i] show "\<exists>x. r = Inr x" by auto
  qed
  from collect_Inr [OF this]
  obtain vss where "collect (map (plims_vals g) [0..<ndim g]) = Inr vss" by blast
  with v0 show ?thesis
    by (auto simp: find_i_def)
qed

lemma corner_loop_reject:
  assumes "\<forall>c\<in>set cs. \<exists>idx. find_i g c = Inr idx
                              \<and> (\<forall>j\<in>set idx. j < length (m_flux (model g)))"
    and "\<exists>c\<in>set cs. \<exists>idx. find_i g c = Inr idx \<and> length idx \<noteq> 1"
  shows "corner_loop g cs m = Inr None"
  using assms
proof (induction cs arbitrary: m)
  case Nil
  then show ?case by simp
next
  case (Cons c cs)
  from Cons.prems(1) obtain idx where idx: "find_i g c = Inr idx"
    "\<forall>j\<in>set idx. j < length (m_flux (model g))" by auto
  show ?case
  proof (cases "length idx = 1")
    case False
    with idx show ?thesis by simp
  next
    case True
    then have "idx ! 0 \<in> set idx" by (cases idx) auto
    with idx have inb: "idx ! 0 < length (m_flux (model g))" by blast
    from Cons.prems(2) True idx
    have "\<exists>c\<in>set cs. \<exists>idx. find_i g c = Inr idx \<and> length idx \<noteq> 1" by auto
    with Cons.IH Cons.prems(1)
    have "corner_loop g cs (m(c \<mapsto> m_flux (model g) ! (idx ! 0))) = Inr None" by simp
    with idx True inb show ?thesis by simp
  qed
qed

lemma sum_list_sentinel: "wave g \<noteq> [] \<Longrightarrow> sum_list (sentinel g) < 0"
  by (simp add: sentinel_def sum_list_replicate)

lemma grid_edges_on_grid:
  assumes len: "length p = ndim g"
    and on: "\<forall>i<ndim g. \<exists>pl. plims g (params g ! i) = Some pl \<and> p ! i \<in> set (vals pl)"
  shows "grid_edges g p = Inr (map (\<lambda>x. [x]) p)"
proof -
  have "\<forall>i\<in>set [0..<ndim g]. edges_at g p i = Inr [p ! i]"
  proof
    fix i assume "i \<in> set [0..<ndim g]"
    then have i: "i < ndim g" by simp
    with on obtain pl where "plims g (params g ! i) = Some pl" "p ! i \<in> set (vals pl)"
      by blast
    with i len show "edges_at g p i = Inr [p ! i]"
      by (simp add: edges_at_def plims_vals_def plims_entry_def grid_edge_def ndim_def)
  qed
  from collect_map_Inr [OF this]
  have "grid_edges g p = Inr (map (\<lambda>i. [p ! i]) [0..<ndim g])"
    by (simp add: grid_edges_def)
  also have "map (\<lambda>i. [p ! i]) [0..<ndim g] = map (\<lambda>x. [x]) p"
    using len by (simp add: list_eq_iff_nth_eq)
  finally show ?thesis .
qed

lemma single_flags_all: "single_flags (map (\<lambda>x. [x]) p) = [0..<length p]"
  by (simp add: single_flags_def filter_id_conv)

lemma to_interp_none: "to_interp (map (\<lambda>x. [x]) p) = []"
  by (simp add: to_interp_def single_flags_all)

lemma grid_corners_on_grid: "grid_corners np (map (\<lambda>x. [x]) p) = Inr [p]"
proof -
  have "\<forall>i\<in>set [0..<length p]. corner_entry np (map (\<lambda>x. [x]) p) 0 i = Inr (p ! i)"
    by (simp add: corner_entry_def single_flags_all)
  from collect_map_Inr [OF this]
  have "collect (map (corner_entry np (map (\<lambda>x. [x]) p) 0) [0..<length p]) = Inr p"
    by (simp add: map_nth)
  then show ?thesis
    by (simp add: grid_corners_def single_flags_all)
qed

lemma reduce_loop_pinned:
  assumes "\<forall>i\<in>set js. i \<in> set (single_flags edges) \<and> i \<notin> set (to_interp edges)"
    and "length js \<le> length c" and "m c = Some f"
  shows "\<exists>m'. reduce_loop g p edges js [c] m = Inr ([drop (length js) c], m')
              \<and> m' (drop (length js) c) = Some f"
  using assms
proof (induction js arbitrary: c m)
  case Nil
  then show ?case by simp
next
  case (Cons i js)
  from Cons.prems(2) obtain x c' where c: "c = x # c'" by (cases c) auto
  let ?m = "Map.empty(c' \<mapsto> f)"
  have cp: "copy_loop x [c'] m Map.empty = Inr ?m"
    using Cons.prems(3) c by simp
  from Cons.prems c
  have a1: "\<forall>i\<in>set js. i \<in> set (single_flags edges) \<and> i \<notin> set (to_interp edges)"
    and a2: "length js \<le> length c'" and a3: "?m c' = Some f" by auto
  from Cons.IH [of c' ?m, OF a1 a2 a3]
  obtain m' where "reduce_loop g p edges js [c'] ?m = Inr ([drop (length js) c'], m')"
    "m' (drop (length js) c') = Some f" by blast
  with Cons.prems(1) cp c show ?case by simp
qed

lemma blend_loop_keeps:
  "blend_loop c i1 i2 cs old new = Inr new' \<Longrightarrow> cpar \<notin> set cs \<Longrightarrow> new' cpar = new cpar"
  by (induction cs arbitrary: new) (auto split: option.splits)

lemma blend_loop_lookup:
  assumes "blend_loop c i1 i2 cs old new = Inr new'" and "cpar \<in> set cs"
  shows "\<exists>ns1 ns2. old (i1 # cpar) = Some ns1 \<and> old (i2 # cpar) = Some ns2
                    \<and> new' cpar = Some (blend c ns1 ns2)"
  using assms
proof (induction cs arbitrary: new)
  case Nil
  then show ?case by simp
next
  case (Cons x cs)
  from Cons.prems(1) obtain ns1 ns2 where x: "old (i1 # x) = Some ns1" "old (i2 # x) = Some ns2"
    and rest: "blend_loop c i1 i2 cs old (new(x \<mapsto> blend c ns1 ns2)) = Inr new'"
    by (auto split: option.splits)
  show ?case
  proof (cases "cpar \<in> set cs")
    case True
    from Cons.IH [OF rest True] show ?thesis .
  next
    case False
    with Cons.prems(2) have "cpar = x" by simp
    with blend_loop_keeps [OF rest False] x show ?thesis by simp
  qed
qed

subsection \<open>The example objects are constructed and well formed\<close>

lemma init_grid_full:
  "ModelGrid_init data_spectrum models_full [''teff'', ''logg''] False None False
     [0.9, 1.4, 1.9, 2.5] = Inr grid_full"
  by (simp add: init_eval data_spectrum_def models_full_def grid_full_def)

lemma init_grid_hole:
  "ModelGrid_init data_spectrum models_hole [''teff'', ''logg''] False None False
     [0.9, 1.4, 1.9, 2.5] = Inr grid_hole"
  by (simp add: init_eval data_spectrum_def models_hole_def grid_hole_def)

lemma wf_grid_full: "wf_grid grid_full"
  by (simp add: wf_grid_def grid_full_def models_full_def)

lemma wf_grid_hole: "wf_grid grid_hole"
  by (simp add: wf_grid_def grid_hole_def models_hole_def)

lemmas grid_eval = grid_full_def grid_hole_def models_full_def models_hole_def env_plain_def

subsection \<open>The bounds check\<close>

text \<open>
  Claim C8. For a parameter vector laid out as fit parameters, normalization values and
  \<open>ln(s)\<close>, with at least one normalization value and fewer values than bin edges (or
  exactly one value when no edge is configured), on an object whose fit parameters all
  have limits: if some fit parameter lies strictly below its minimum or strictly above
  its maximum, the evaluation returns exactly \<open>-inf\<close>; and the loop of the bounds check
  rejects exactly in that case, so a value equal to the minimum or the maximum passes
  it.
\<close>

theorem bounds_check:
  assumes ent: "\<forall>i<ndim g. plims g (params g ! i) \<noteq> None"
    and len: "length mp = ndim g"
    and layout: "(wavelength_bins g = [] \<and> length nv = 1)
                 \<or> (nv \<noteq> [] \<and> length nv < length (wavelength_bins g))"
  shows "((\<exists>i<ndim g. \<exists>pl. plims g (params g ! i) = Some pl
                          \<and> (mp ! i < min_val pl \<or> max_val pl < mp ! i))
          \<longrightarrow> ModelGrid_call env g (mp @ nv @ [lns]) = Inr NegInf)
       \<and> bounds_loop g mp [0..<ndim g]
         = Inr (\<exists>i<ndim g. \<exists>pl. plims g (params g ! i) = Some pl
                               \<and> (mp ! i < min_val pl \<or> max_val pl < mp ! i))"
proof -
  let ?out = "\<exists>i<ndim g. \<exists>pl. plims g (params g ! i) = Some pl
                               \<and> (mp ! i < min_val pl \<or> max_val pl < mp ! i)"
  have "\<forall>i\<in>set [0..<ndim g]. i < length mp \<and> i < length (params g)
            \<and> plims g (params g ! i) \<noteq> None"
    using ent len by (simp add: ndim_def)
  from bounds_loop_result [OF this]
  have bl: "bounds_loop g mp [0..<ndim g] = Inr ?out"
    by (simp add: Bex_def)
  obtain nz where nz: "calc_normalization (wave g) nv (wavelength_bins g) = Inr nz"
    using calc_normalization_ok [OF layout] by blast
  have "?out \<longrightarrow> ModelGrid_call env g (mp @ nv @ [lns]) = Inr NegInf"
    unfolding ModelGrid_call_def Let_def call_split [OF len]
    using bl nz by simp
  with bl show ?thesis by blast
qed

theorem bounds_check_witness:
  "ModelGrid_call env_plain grid_full ([1700, 4.5] @ [1, 1, 1] @ [0]) = Inr NegInf
   \<and> ModelGrid_call env_plain grid_full ([1400, 4.4] @ [1, 1, 1] @ [0]) = Inr NegInf
   \<and> bounds_loop grid_full [1700, 4.5] [0..<ndim grid_full] = Inr True
   \<and> bounds_loop grid_full [1400, 5.0] [0..<ndim grid_full] = Inr False"
proof -
  have ent: "\<forall>i<ndim grid_full. plims grid_full (params grid_full ! i) \<noteq> None"
    by (simp add: grid_eval ndim_def less_Suc_eq)
  have layout: "(wavelength_bins grid_full = [] \<and> length [1, 1, 1 :: real] = 1)
                 \<or> ([1, 1, 1 :: real] \<noteq> [] \<and> length [1, 1, 1 :: real] < length (wavelength_bins grid_full))"
    by (simp add: grid_eval)
  have len: "length [1700, 4.5 :: real] = ndim grid_full" "length [1400, 4.4 :: real] = ndim grid_full"
    "length [1400, 5.0 :: real] = ndim grid_full"
    by (simp_all add: grid_eval ndim_def)
  have ex: "(\<exists>i<ndim grid_full. \<exists>pl. plims grid_full (params grid_full ! i) = Some pl
                \<and> ([1700, 4.5] ! i < min_val pl \<or> max_val pl < [1700, 4.5] ! i)) = True"
    "(\<exists>i<ndim grid_full. \<exists>pl. plims grid_full (params grid_full ! i) = Some pl
                \<and> ([1400, 4.4] ! i < min_val pl \<or> max_val pl < [1400, 4.4] ! i)) = True"
    "(\<exists>i<ndim grid_full. \<exists>pl. plims grid_full (params grid_full ! i) = Some pl
                \<and> ([1400, 5.0] ! i < min_val pl \<or> max_val pl < [1400, 5.0] ! i)) = False"
    by (simp_all add: grid_eval ndim_def less_Suc_eq ex_disj_distrib conj_disj_distribR)
  show ?thesis
    using bounds_check [OF ent len(1) layout, of env_plain 0]
      bounds_check [OF ent len(2) layout, of env_plain 0]
      bounds_check [OF ent len(3) layout, of env_plain 0]
    unfolding ex by simp
qed

subsection \<open>A corner without a unique model\<close>

text \<open>
  Claim C4. On a well-formed grid in interpolation mode, when the corners have been
  gathered and one of them matches no model or several, \<open>interp_models\<close> returns the
  array of -99s, whose sum is negative, and the posterior evaluation returns exactly
  \<open>-inf\<close>: a value, not an exception.
\<close>

theorem missing_corner_rejected:
  assumes wf: "wf_grid g" and nd: "params g \<noteq> []" and interp_mode: "\<not> snap g"
    and len: "length mp = ndim g"
    and layout: "(wavelength_bins g = [] \<and> length nv = 1)
                 \<or> (nv \<noteq> [] \<and> length nv < length (wavelength_bins g))"
    and edges: "grid_edges g mp = Inr edges"
    and corners: "grid_corners (neg_int_power env) edges = Inr corners"
    and bad: "\<exists>c\<in>set corners. \<exists>idx. find_i g c = Inr idx \<and> length idx \<noteq> 1"
  shows "interp_models env g mp = Inr (sentinel g) \<and> sum_list (sentinel g) < 0
         \<and> ModelGrid_call env g (mp @ nv @ [lns]) = Inr NegInf"
proof -
  have "\<forall>c\<in>set corners. \<exists>idx. find_i g c = Inr idx
                              \<and> (\<forall>j\<in>set idx. j < length (m_flux (model g)))"
    using find_i_in_range [OF wf nd] by blast
  from corner_loop_reject [OF this bad]
  have "corner_loop g corners Map.empty = Inr None" .
  with edges corners have im: "interp_models env g mp = Inr (sentinel g)"
    by (simp add: interp_models_def)
  from wf have neg: "sum_list (sentinel g) < 0"
    by (simp add: wf_grid_def sum_list_sentinel)
  have ent: "\<forall>i\<in>set [0..<ndim g]. i < length mp \<and> i < length (params g)
            \<and> plims g (params g ! i) \<noteq> None"
  proof
    fix i assume "i \<in> set [0..<ndim g]"
    then have i: "i < ndim g" by simp
    from wf_grid_column [OF wf i] obtain vs where "plims g (params g ! i)
         = Some \<lparr>vals = vs, min_val = Min (set vs), max_val = Max (set vs)\<rparr>"
      by blast
    with i len show "i < length mp \<and> i < length (params g)
            \<and> plims g (params g ! i) \<noteq> None" by (simp add: ndim_def)
  qed
  obtain b where bl: "bounds_loop g mp [0..<ndim g] = Inr b"
    using bounds_loop_result [OF ent] by blast
  obtain nz where nz: "calc_normalization (wave g) nv (wavelength_bins g) = Inr nz"
    using calc_normalization_ok [OF layout] by blast
  have "ModelGrid_call env g (mp @ nv @ [lns]) = Inr NegInf"
    unfolding ModelGrid_call_def Let_def call_split [OF len]
    using bl nz im neg interp_mode by (cases b) simp_all
  with im neg show ?thesis by blast
qed

theorem missing_corner_rejected_witness:
  "wf_grid grid_hole \<and> \<not> snap grid_hole
   \<and> grid_edges grid_hole [1500, 4.75] = Inr [[1400, 1600], [4.5, 5.0]]
   \<and> grid_corners (neg_int_power env_plain) [[1400, 1600], [4.5, 5.0]]
       = Inr [[1400, 4.5], [1400, 5.0], [1600, 4.5], [1600, 5.0]]
   \<and> find_i grid_hole [1600, 5.0] = Inr []
   \<and> interp_models env_plain grid_hole [1500, 4.75] = Inr [- 99, - 99]
   \<and> ModelGrid_call env_plain grid_hole ([1500, 4.75] @ [1, 1, 1] @ [0]) = Inr NegInf"
proof -
  have nd: "params grid_hole \<noteq> []" and sn: "\<not> snap grid_hole"
    and len: "length [1500, 4.75 :: real] = ndim grid_hole"
    by (simp_all add: grid_eval ndim_def)
  have layout: "(wavelength_bins grid_hole = [] \<and> length [1, 1, 1 :: real] = 1)
                 \<or> ([1, 1, 1 :: real] \<noteq> [] \<and> length [1, 1, 1 :: real] < length (wavelength_bins grid_hole))"
    by (simp add: grid_eval)
  have edges: "grid_edges grid_hole [1500, 4.75] = Inr [[1400, 1600], [4.5, 5.0]]"
    by (simp add: grid_eval retrieval_eval ndim_def plims_vals_def plims_entry_def upt_rec)
  have corners: "grid_corners (neg_int_power env_plain) [[1400, 1600], [4.5, 5.0]]
       = Inr [[1400, 4.5], [1400, 5.0], [1600, 4.5], [1600, 5.0]]"
    by (simp add: grid_eval retrieval_eval upt_rec)
  have fi: "find_i grid_hole [1600, 5.0] = Inr []"
    by (simp add: grid_eval retrieval_eval ndim_def plims_vals_def plims_entry_def upt_rec)
  then have bad: "\<exists>c\<in>set [[1400, 4.5], [1400, 5.0], [1600, 4.5], [1600, 5.0]].
            \<exists>idx. find_i grid_hole c = Inr idx \<and> length idx \<noteq> 1"
    by simp
  have sent: "sentinel grid_hole = [- 99, - 99]"
    by (simp add: sentinel_def grid_eval)
  from missing_corner_rejected [OF wf_grid_hole nd sn len layout edges corners bad, of 0]
  show ?thesis
    using wf_grid_hole sn edges corners fi by (simp add: sent)
qed

subsection \<open>Retrieval at a grid point\<close>

text \<open>
  Claim C9. On a well-formed grid with smoothing off and no resampling, when every
  component of the parameter vector is a grid value of its parameter and exactly one
  model \<open>j\<close> has these coordinates, \<open>interp_models\<close> returns the stored flux of model
  \<open>j\<close> multiplied by the least-squares factor \<open>ck\<close> of that flux: nothing is blended.
\<close>

theorem on_grid_retrieval_exact:
  assumes wf: "wf_grid g" and ns: "\<not> smooth g" and ni: "\<not> interp g"
    and len: "length p = ndim g"
    and on: "\<forall>i<ndim g. \<exists>pl. plims g (params g ! i) = Some pl \<and> p ! i \<in> set (vals pl)"
    and one: "find_i g p = Inr [j]"
    and den: "(\<Sum>(m, m', u) \<leftarrow> zip (m_flux (model g) ! j) (zip (m_flux (model g) ! j) (unc g)).
                 m * m' / u ^ 2) \<noteq> 0"
  shows "interp_models env g p
         = Inr (map (\<lambda>m. m * ((\<Sum>(d, m, u) \<leftarrow> zip (flux g) (zip (m_flux (model g) ! j) (unc g)).
                                   d * m / u ^ 2)
                               / (\<Sum>(m, m', u) \<leftarrow> zip (m_flux (model g) ! j)
                                                      (zip (m_flux (model g) ! j) (unc g)).
                                   m * m' / u ^ 2)))
                    (m_flux (model g) ! j))"
proof -
  let ?f = "m_flux (model g) ! j"
  let ?edges = "map (\<lambda>x. [x]) p"
  have nd: "params g \<noteq> []"
    using one by (auto simp: find_i_def plims_vals_def plims_entry_def)
  from find_i_in_range [OF wf nd, of p] one have j: "j < length (m_flux (model g))"
    by simp
  have edges: "grid_edges g p = Inr ?edges"
    using grid_edges_on_grid [OF len on] .
  have cl: "corner_loop g [p] Map.empty = Inr (Some (Map.empty(p \<mapsto> ?f)))"
    using one j by simp
  have "\<forall>i\<in>set [0..<ndim g]. i \<in> set (single_flags ?edges) \<and> i \<notin> set (to_interp ?edges)"
    using len by (simp add: single_flags_all to_interp_none)
  from reduce_loop_pinned [OF this, of p "Map.empty(p \<mapsto> ?f)" ?f g p]
  obtain m' where red: "reduce_loop g p ?edges [0..<ndim g] [p] (Map.empty(p \<mapsto> ?f))
                        = Inr ([[]], m')" and m': "m' [] = Some ?f"
    using len by auto
  have fin: "finish_flux env g ?f = normalize_model (flux g) (unc g) ?f"
    using ns ni by (simp add: finish_flux_def)
  have im: "interp_models env g p = normalize_model (flux g) (unc g) ?f"
    by (simp only: interp_models_def edges grid_corners_on_grid cl red m' fin
        sum.case option.case prod.case)
  from wf j have "length ?f = length (m_wavelength (model g))"
    by (simp add: wf_grid_def list_all_length)
  with wf ni have l1: "length (flux g) = length ?f" and l2: "length ?f = length (unc g)"
    by (simp_all add: wf_grid_def)
  show ?thesis
    unfolding im
    by (simp add: normalize_model_def normalize_model_ck_def Let_def
        sum_ratio_same_length [OF l1 l2] sum_ratio_same_length [OF refl l2])
qed

theorem on_grid_retrieval_exact_witness:
  "wf_grid grid_full \<and> find_i grid_full [1400, 5.0] = Inr [1]
   \<and> m_flux (model grid_full) ! 1 = [2, 3]
   \<and> interp_models env_plain grid_full [1400, 5.0] = Inr [2 * (28 / 25), 3 * (28 / 25)]"
proof -
  have ns: "\<not> smooth grid_full" and ni: "\<not> interp grid_full"
    and len: "length [1400, 5.0 :: real] = ndim grid_full"
    by (simp_all add: grid_eval ndim_def)
  have on: "\<forall>i<ndim grid_full. \<exists>pl. plims grid_full (params grid_full ! i) = Some pl
               \<and> [1400, 5.0] ! i \<in> set (vals pl)"
    by (simp add: grid_eval ndim_def less_Suc_eq)
  have one: "find_i grid_full [1400, 5.0] = Inr [1]"
    by (simp add: grid_eval retrieval_eval ndim_def plims_vals_def plims_entry_def upt_rec)
  have row: "m_flux (model grid_full) ! 1 = [2, 3]"
    by (simp add: grid_eval)
  have den: "(\<Sum>(m, m', u) \<leftarrow> zip (m_flux (model grid_full) ! 1)
                 (zip (m_flux (model grid_full) ! 1) (unc grid_full)). m * m' / u ^ 2) \<noteq> 0"
    by (simp add: grid_eval)
  from on_grid_retrieval_exact [OF wf_grid_full ns ni len on one den, of env_plain]
  have "interp_models env_plain grid_full [1400, 5.0] = Inr [2 * (28 / 25), 3 * (28 / 25)]"
    by (simp add: grid_eval)
  with wf_grid_full one row show ?thesis by simp
qed

subsection \<open>The weight for the effective temperature\<close>

text \<open>
  Claim C7, amended. In a pass of the reduction over an interpolated parameter named
  \<open>teff\<close>, with the lower grid value \<open>L\<close> in the first row of the corner table, the upper
  value \<open>U\<close> in its middle row, \<open>L\<close> not negative and the target \<open>t\<close> strictly between
  them (so that the denominator below is not zero), every new
  spectrum is \<open>ns1 + (ns2 - ns1) * w\<close> with \<open>w = (t^4 - L^4) / (U^4 - L^4)\<close>, where
  \<open>ns1\<close> and \<open>ns2\<close> are the spectra at \<open>L\<close> and \<open>U\<close>. For \<open>L = 1400\<close>, \<open>U = 1600\<close>,
  \<open>t = 1500\<close> the weight is \<open>(1500^4 - 1400^4) / (1600^4 - 1400^4)\<close>, which lies between
  0.4501 and 0.4502, and is not 0.5.
\<close>

theorem teff_step_weight:
  assumes "i \<in> set (to_interp edges)" and "params g ! i = ''teff''"
    and "old_corners ! 0 ! 0 = L" and "old_corners ! (length old_corners div 2) ! 0 = U"
    and "p ! i = t" and "0 \<le> L" and "L < t" and "t < U"
    and "reduce_loop g p edges [i] old_corners old_spectra = Inr (new_corners, new_spectra)"
    and "cpar \<in> set new_corners"
  shows "(\<exists>ns1 ns2. old_spectra (L # cpar) = Some ns1 \<and> old_spectra (U # cpar) = Some ns2
            \<and> new_spectra cpar
                = Some (map (\<lambda>(a, b). a + (b - a) * ((t ^ 4 - L ^ 4) / (U ^ 4 - L ^ 4)))
                            (zip ns1 ns2)))
         \<and> coeff ''teff'' 1500 1400 1600 = (1500 ^ 4 - 1400 ^ 4) / (1600 ^ 4 - 1400 ^ 4)
         \<and> 0.4501 < coeff ''teff'' 1500 1400 1600 \<and> coeff ''teff'' 1500 1400 1600 < 0.4502
         \<and> coeff ''teff'' 1500 1400 1600 \<noteq> 0.5"
proof -
  let ?w = "(t ^ 4 - L ^ 4) / (U ^ 4 - L ^ 4)"
  let ?nc = "map tl (take (length old_corners div 2) old_corners)"
  from assms(1-5) have c: "coeff (params g ! i) (p ! i) (old_corners ! 0 ! 0)
            (old_corners ! (length old_corners div 2) ! 0) = ?w"
    by (simp add: coeff_def)
  from assms(9) assms(1) c assms(3,4)
  have bl: "blend_loop ?w L U ?nc old_spectra Map.empty = Inr new_spectra"
    and nc: "new_corners = ?nc"
    by (auto simp: Let_def split: sum.splits)
  from assms(10) nc have "cpar \<in> set ?nc" by simp
  from blend_loop_lookup [OF bl this]
  have "\<exists>ns1 ns2. old_spectra (L # cpar) = Some ns1 \<and> old_spectra (U # cpar) = Some ns2
            \<and> new_spectra cpar = Some (map (\<lambda>(a, b). a + (b - a) * ?w) (zip ns1 ns2))"
    by (simp add: blend_def)
  moreover have "coeff ''teff'' 1500 1400 1600 = (1500 ^ 4 - 1400 ^ 4) / (1600 ^ 4 - 1400 ^ 4)"
    "0.4501 < coeff ''teff'' 1500 1400 1600" "coeff ''teff'' 1500 1400 1600 < 0.4502"
    "coeff ''teff'' 1500 1400 1600 \<noteq> 0.5"
    by (simp_all add: coeff_def)
  ultimately show ?thesis by blast
qed

theorem teff_step_weight_witness:
  "reduce_loop grid_full [1500, 4.5] [[1400, 1600], [4.5]] [0]
       [[1400, 4.5], [1600, 4.5]] [[1400, 4.5] \<mapsto> [1, 2], [1600, 4.5] \<mapsto> [3, 1]]
     = Inr ([[4.5]], [[4.5] \<mapsto> blend (12209 / 27120) [1, 2] [3, 1]])
   \<and> [[4.5 :: real] \<mapsto> blend (12209 / 27120) [1, 2] [3, 1]] [4.5]
       = Some (map (\<lambda>(a, b). a + (b - a) * ((1500 ^ 4 - 1400 ^ 4) / (1600 ^ 4 - 1400 ^ 4)))
                   (zip [1, 2] [3, 1 :: real]))"
proof -
  let ?old = "[[1400, 4.5 :: real] \<mapsto> [1, 2], [1600, 4.5] \<mapsto> [3, 1 :: real]]"
  let ?new = "[[4.5 :: real] \<mapsto> blend (12209 / 27120) [1, 2] [3, 1 :: real]]"
  let ?oc = "[[1400, 4.5], [1600, 4.5 :: real]]"
  have ti: "0 \<in> set (to_interp [[1400, 1600], [4.5 :: real]])"
    by (simp add: to_interp_def single_flags_def upt_rec)
  have nm: "params grid_full ! 0 = ''teff''"
    by (simp add: grid_eval)
  have lo: "?oc ! 0 ! 0 = 1400" and hi: "?oc ! (length ?oc div 2) ! 0 = 1600"
    and tv: "[1500, 4.5 :: real] ! 0 = 1500"
    and lt: "(0 :: real) \<le> 1400" "(1400 :: real) < 1500" "(1500 :: real) < 1600"
    by simp_all
  have run: "reduce_loop grid_full [1500, 4.5] [[1400, 1600], [4.5]] [0] ?oc ?old
             = Inr ([[4.5]], ?new)"
    using ti nm by (simp add: coeff_def Let_def)
  have mem: "[4.5 :: real] \<in> set [[4.5]]" by simp
  from teff_step_weight [OF ti nm lo hi tv lt run mem]
  obtain ns1 ns2 where "?old [1400, 4.5] = Some ns1" "?old [1600, 4.5] = Some ns2"
    "?new [4.5] = Some (map (\<lambda>(a, b). a + (b - a) * ((1500 ^ 4 - 1400 ^ 4) / (1600 ^ 4 - 1400 ^ 4)))
                            (zip ns1 ns2))"
    by blast
  then have "?new [4.5] = Some (map (\<lambda>(a, b). a + (b - a) * ((1500 ^ 4 - 1400 ^ 4) / (1600 ^ 4 - 1400 ^ 4)))
                            (zip [1, 2] [3, 1 :: real]))"
    by simp
  with run show ?thesis by blast
qed

text \<open>
  Claim C7 as stated gives the value of this weight as approximately 0.4639. The weight
  is 12209/27120, more than 0.0137 away from 0.4639.
\<close>

theorem teff_weight_value: "coeff ''teff'' 1500 1400 1600 = 12209 / 27120
   \<and> \<bar>coeff ''teff'' 1500 1400 1600 - 0.4639\<bar> > 0.0137"
  by (simp add: coeff_def)

end
